theory Spec2Isabelle
  imports Main
begin

section \<open>Data model of \<open>src/index.ts\<close>\<close>

text \<open>
  The interfaces of the source become records. Isabelle keeps one name space for the
  fields of all records, so the fields \<open>name\<close>, \<open>options\<close>, \<open>keyPath\<close> and
  \<open>version\<close>, which several interfaces share, carry a one-letter prefix outside
  \<open>IndexedDBConfig\<close>. An optional field \<open>f?: T\<close> is a \<open>T option\<close>.
  JavaScript numbers are modelled as \<open>int\<close>: versions and timeouts are integral.
  The key path of a store is a string or an array of strings (absent and \<open>null\<close> are
  both \<open>None\<close>); the key path of an index schema is a string.
\<close>

datatype KeyPath = KeyPath_string string | KeyPath_array "string list"

record IDBObjectStoreParameters =
  okeyPath :: "KeyPath option"
  autoIncrement :: "bool option"

record IDBIndexParameters =
  unique :: "bool option"
  multiEntry :: "bool option"

record IndexSchema =
  iname :: string
  ikeyPath :: string
  ioptions :: "IDBIndexParameters option"

record StoreSchema =
  sname :: string
  soptions :: "IDBObjectStoreParameters option"
  sindex :: "IndexSchema list option"

text \<open>
  Errors are values. \<open>Error m\<close> is \<open>new Error(m)\<close>; \<open>BlockedError n new old\<close> is the
  error whose message the \<open>onblocked\<close> handler builds from the database name and the two
  versions; \<open>DOMException n\<close> is an exception of the storage engine.
\<close>

datatype Error =
    Error string
  | BlockedError string int int
  | DOMException string

subsection \<open>The structure held by the storage engine\<close>

text \<open>
  The engine is not part of the repository; the model keeps what the upgrade code reads
  and writes: the object stores of a database, by name, each with its creation
  parameters and its indexes, by name. Association lists keep the order of creation;
  \<open>objectStoreNames\<close> and \<open>indexNames\<close> give a snapshot of the names, as the
  \<open>DOMStringList\<close> of the engine does (the engine sorts the snapshot; the order plays
  no part in what the loops below leave behind). \<open>closePending\<close> says that
  \<open>close()\<close> was called on the connection, as the version-change observer and
  \<open>deleteDatabase\<close> do; the engine then opens no transaction on it.

  The primitives raise the exceptions of the engine, in the order in which the engine
  tests: \<open>createObjectStore\<close> refuses a key path that is not valid
  (\<open>SyntaxError\<close>), a name that is taken (\<open>ConstraintError\<close>), and \<open>autoIncrement\<close>
  with an empty or an array key path (\<open>InvalidAccessError\<close>); \<open>createIndex\<close> refuses
  a name that is taken and a key path that is not valid; the two deletions refuse a name
  that is missing. Which strings the engine takes as key paths is not decided here: its
  test is the parameter \<open>valid\<close> of the model. A primitive that raises changes
  nothing. The primitives are called inside the upgrade handler, where the upgrade
  transaction is active.
\<close>

record IDBIndex =
  xkeyPath :: string
  xoptions :: "IDBIndexParameters option"

record IDBObjectStore =
  parameters :: "IDBObjectStoreParameters option"
  indexes :: "(string \<times> IDBIndex) list"

record IDBDatabase =
  dname :: string
  dversion :: int
  objectStores :: "(string \<times> IDBObjectStore) list"
  closePending :: bool

definition objectStoreNames :: "IDBDatabase \<Rightarrow> string list" where
  "objectStoreNames db = map fst (objectStores db)"

definition valid_key_path :: "(string \<Rightarrow> bool) \<Rightarrow> KeyPath \<Rightarrow> bool" where
  "valid_key_path valid kp =
     (case kp of
        KeyPath_string s \<Rightarrow> valid s
      | KeyPath_array ss \<Rightarrow> ss \<noteq> [] \<and> list_all valid ss)"

definition bad_key_path :: "(string \<Rightarrow> bool) \<Rightarrow> IDBObjectStoreParameters option \<Rightarrow> bool" where
  "bad_key_path valid opts =
     (case opts of
        None \<Rightarrow> False
      | Some ps \<Rightarrow> (case okeyPath ps of None \<Rightarrow> False | Some kp \<Rightarrow> \<not> valid_key_path valid kp))"

definition bad_autoIncrement :: "IDBObjectStoreParameters option \<Rightarrow> bool" where
  "bad_autoIncrement opts =
     (case opts of
        None \<Rightarrow> False
      | Some ps \<Rightarrow>
          autoIncrement ps = Some True
          \<and> (case okeyPath ps of
                None \<Rightarrow> False
              | Some (KeyPath_string s) \<Rightarrow> s = []
              | Some (KeyPath_array ss) \<Rightarrow> True))"

definition deleteObjectStore :: "string \<Rightarrow> IDBDatabase \<Rightarrow> Error + IDBDatabase" where
  "deleteObjectStore n db =
     (if n \<in> set (objectStoreNames db)
      then Inr (db\<lparr>objectStores := filter (\<lambda>p. fst p \<noteq> n) (objectStores db)\<rparr>)
      else Inl (DOMException ''NotFoundError''))"

definition createObjectStore ::
  "(string \<Rightarrow> bool) \<Rightarrow> string \<Rightarrow> IDBObjectStoreParameters option \<Rightarrow> IDBDatabase
     \<Rightarrow> Error + IDBDatabase" where
  "createObjectStore valid n opts db =
     (if bad_key_path valid opts then Inl (DOMException ''SyntaxError'')
      else if n \<in> set (objectStoreNames db) then Inl (DOMException ''ConstraintError'')
      else if bad_autoIncrement opts then Inl (DOMException ''InvalidAccessError'')
      else Inr (db\<lparr>objectStores :=
                  objectStores db @ [(n, \<lparr>parameters = opts, indexes = []\<rparr>)]\<rparr>))"

definition objectStore :: "string \<Rightarrow> IDBDatabase \<Rightarrow> Error + IDBObjectStore" where
  "objectStore n db =
     (case map_of (objectStores db) n of
        None \<Rightarrow> Inl (DOMException ''NotFoundError'')
      | Some s \<Rightarrow> Inr s)"

definition indexNames :: "IDBObjectStore \<Rightarrow> string list" where
  "indexNames s = map fst (indexes s)"

text \<open>
  A store handle is a reference into the database: \<open>deleteIndex\<close> and \<open>createIndex\<close>
  on the handle of store \<open>n\<close> change the store of that name in the database.
\<close>

definition update_store ::
  "string \<Rightarrow> (IDBObjectStore \<Rightarrow> IDBObjectStore) \<Rightarrow> IDBDatabase \<Rightarrow> IDBDatabase" where
  "update_store n f db =
     db\<lparr>objectStores := map (\<lambda>p. if fst p = n then (fst p, f (snd p)) else p) (objectStores db)\<rparr>"

definition deleteIndex :: "string \<Rightarrow> string \<Rightarrow> IDBDatabase \<Rightarrow> Error + IDBDatabase" where
  "deleteIndex n i db =
     (case objectStore n db of
        Inl e \<Rightarrow> Inl e
      | Inr s \<Rightarrow>
          if i \<in> set (indexNames s)
          then Inr (update_store n
                 (\<lambda>s. s\<lparr>indexes := filter (\<lambda>p. fst p \<noteq> i) (indexes s)\<rparr>) db)
          else Inl (DOMException ''NotFoundError''))"

definition createIndex ::
  "(string \<Rightarrow> bool) \<Rightarrow> string \<Rightarrow> string \<Rightarrow> string \<Rightarrow> IDBIndexParameters option
     \<Rightarrow> IDBDatabase \<Rightarrow> Error + IDBDatabase" where
  "createIndex valid n i kp opts db =
     (case objectStore n db of
        Inl e \<Rightarrow> Inl e
      | Inr s \<Rightarrow>
          if i \<in> set (indexNames s) then Inl (DOMException ''ConstraintError'')
          else if \<not> valid kp then Inl (DOMException ''SyntaxError'')
          else Inr (update_store n
                 (\<lambda>s. s\<lparr>indexes := indexes s @ [(i, \<lparr>xkeyPath = kp, xoptions = opts\<rparr>)]\<rparr>) db))"

subsection \<open>Configuration\<close>

text \<open>
  A migration's body is user code working on the live connection and the upgrade
  transaction; the model gives it the old version, the new version and its own version,
  and it returns the structure as it leaves it together with the error its promise
  rejects with, if it does. The lifecycle callbacks return nothing the code reads
  (apart from \<open>onBlocked\<close>, which may return an error), so a callback is modelled by
  whether it is configured, and each invocation is recorded in a trace.
\<close>

record Migration =
  mversion :: int
  migration :: "int \<Rightarrow> int \<Rightarrow> int \<Rightarrow> IDBDatabase \<Rightarrow> IDBDatabase \<times> Error option"

record Events =
  onBlocked :: "(int \<Rightarrow> int \<Rightarrow> Error option) option"
  onError :: bool
  onTransactionTimeout :: bool
  onUpgradeStart :: bool
  onUpgradeEnd :: bool
  onVersionChange :: bool

record IndexedDBConfig =
  name :: string
  version :: int
  stores :: "StoreSchema list"
  migrations :: "Migration list option"
  transactionTimeout :: "int option"
  events :: "Events option"

text \<open>
  JavaScript values, as far as the adapters look at them: a request's result, a cursor,
  what the cursor callback returns. \<open>truthy\<close> is the test of \<open>if (v)\<close>.
\<close>

datatype jsval =
    Undefined
  | Null
  | Boolean bool
  | Number int
  | String string
  | Array "jsval list"
  | Object "(string \<times> jsval) list"

fun truthy :: "jsval \<Rightarrow> bool" where
  "truthy Undefined = False"
| "truthy Null = False"
| "truthy (Boolean b) = b"
| "truthy (Number n) = (n \<noteq> 0)"
| "truthy (String s) = (s \<noteq> [])"
| "truthy (Array _) = True"
| "truthy (Object _) = True"

text \<open>
  What the code does that an observer can see: calls of the configured callbacks, calls
  of migrations, calls into the engine that returned, and calls of the \<open>resolve\<close> and
  \<open>reject\<close> functions of a promise (each call is recorded, whether or not it is the
  one that settles the promise). The argument of \<open>Call_onError\<close> is an option because
  \<open>transaction.error\<close> may be \<open>null\<close> when the handler passes it on.
\<close>

datatype IDBTransactionMode = Readonly | Readwrite | Versionchange

datatype action =
    Call_onError "Error option"
  | Call_onBlocked int int
  | Call_onTransactionTimeout IDBDatabase "string list" "int option"
  | Call_onUpgradeStart IDBDatabase int int
  | Call_onUpgradeEnd IDBDatabase int int
  | Call_migration int int int
  | Engine_open string int
  | Engine_transaction "string list" IDBTransactionMode
  | Engine_abort
  | Engine_continue
  | Promise_resolve jsval
  | Promise_resolve_instance IDBDatabase
  | Promise_reject Error

datatype outcome = Resolved jsval | Rejected Error

text \<open>
  \<open>config.events?.f?.(args)\<close>: the call happens when \<open>events\<close> is present and the
  callback is configured.
\<close>

definition configured :: "IndexedDBConfig \<Rightarrow> (Events \<Rightarrow> bool) \<Rightarrow> bool" where
  "configured config f = (case events config of None \<Rightarrow> False | Some ev \<Rightarrow> f ev)"

definition call :: "IndexedDBConfig \<Rightarrow> (Events \<Rightarrow> bool) \<Rightarrow> action \<Rightarrow> action list \<Rightarrow> action list" where
  "call config f a tr = (if configured config f then tr @ [a] else tr)"

section \<open>The upgrade step (\<open>onupgradeneeded\<close>)\<close>

subsection \<open>Schema Synchronizer: the \<open>else\<close> branch\<close>

text \<open>
  Each loop returns the structure it leaves and the exception that ended it, if one
  did: what was changed before an exception stays changed.

  First loop: \<open>for (const storeName of db.objectStoreNames)\<close>, over the snapshot taken
  when the loop starts.
\<close>

fun delete_absent_stores ::
  "StoreSchema list \<Rightarrow> string list \<Rightarrow> IDBDatabase \<Rightarrow> IDBDatabase \<times> Error option" where
  "delete_absent_stores cs [] db = (db, None)"
| "delete_absent_stores cs (storeName # ns) db =
     (if list_all (\<lambda>store. sname store \<noteq> storeName) cs
      then (case deleteObjectStore storeName db of
              Inl e \<Rightarrow> (db, Some e)
            | Inr db' \<Rightarrow> delete_absent_stores cs ns db')
      else delete_absent_stores cs ns db)"

text \<open>
  \<open>!store?.index?.some(index => index.name == currentIndex)\<close>: with no \<open>index\<close> field
  the optional chain gives \<open>undefined\<close> and the test holds for every index.
\<close>

definition index_absent :: "IndexSchema list option \<Rightarrow> string \<Rightarrow> bool" where
  "index_absent ix currentIndex =
     (case ix of
        None \<Rightarrow> True
      | Some is \<Rightarrow> \<not> list_ex (\<lambda>index. iname index = currentIndex) is)"

fun delete_absent_indexes ::
  "string \<Rightarrow> IndexSchema list option \<Rightarrow> string list \<Rightarrow> IDBDatabase
     \<Rightarrow> IDBDatabase \<times> Error option" where
  "delete_absent_indexes n ix [] db = (db, None)"
| "delete_absent_indexes n ix (currentIndex # cis) db =
     (if index_absent ix currentIndex
      then (case deleteIndex n currentIndex db of
              Inl e \<Rightarrow> (db, Some e)
            | Inr db' \<Rightarrow> delete_absent_indexes n ix cis db')
      else delete_absent_indexes n ix cis db)"

text \<open>
  \<open>store?.index?.forEach(...)\<close>: \<open>currentStore.indexNames\<close> is read again at every
  element, on the store as it is then.
\<close>

fun create_missing_indexes ::
  "(string \<Rightarrow> bool) \<Rightarrow> string \<Rightarrow> IndexSchema list \<Rightarrow> IDBDatabase
     \<Rightarrow> IDBDatabase \<times> Error option" where
  "create_missing_indexes valid n [] db = (db, None)"
| "create_missing_indexes valid n (index # is) db =
     (case objectStore n db of
        Inl e \<Rightarrow> (db, Some e)
      | Inr currentStore \<Rightarrow>
          if iname index \<notin> set (indexNames currentStore)
          then (case createIndex valid n (iname index) (ikeyPath index) (ioptions index) db of
                  Inl e \<Rightarrow> (db, Some e)
                | Inr db' \<Rightarrow> create_missing_indexes valid n is db')
          else create_missing_indexes valid n is db)"

text \<open>The body of \<open>for (const store of config.stores)\<close>.\<close>

definition sync_store ::
  "(string \<Rightarrow> bool) \<Rightarrow> StoreSchema \<Rightarrow> IDBDatabase \<Rightarrow> IDBDatabase \<times> Error option" where
  "sync_store valid store db =
     (case (if sname store \<notin> set (objectStoreNames db)
            then createObjectStore valid (sname store) (soptions store) db
            else Inr db) of
        Inl e \<Rightarrow> (db, Some e)
      | Inr db1 \<Rightarrow>
          (case objectStore (sname store) db1 of
             Inl e \<Rightarrow> (db1, Some e)
           | Inr currentStore \<Rightarrow>
               (case delete_absent_indexes (sname store) (sindex store)
                       (indexNames currentStore) db1 of
                  (db2, Some e) \<Rightarrow> (db2, Some e)
                | (db2, None) \<Rightarrow>
                    (case sindex store of
                       None \<Rightarrow> (db2, None)
                     | Some is \<Rightarrow> create_missing_indexes valid (sname store) is db2))))"

fun sync_stores ::
  "(string \<Rightarrow> bool) \<Rightarrow> StoreSchema list \<Rightarrow> IDBDatabase \<Rightarrow> IDBDatabase \<times> Error option" where
  "sync_stores valid [] db = (db, None)"
| "sync_stores valid (store # ss) db =
     (case sync_store valid store db of
        (db', Some e) \<Rightarrow> (db', Some e)
      | (db', None) \<Rightarrow> sync_stores valid ss db')"

definition schema_sync ::
  "(string \<Rightarrow> bool) \<Rightarrow> StoreSchema list \<Rightarrow> IDBDatabase \<Rightarrow> IDBDatabase \<times> Error option" where
  "schema_sync valid cs db =
     (case delete_absent_stores cs (objectStoreNames db) db of
        (db', Some e) \<Rightarrow> (db', Some e)
      | (db', None) \<Rightarrow> sync_stores valid cs db')"

subsection \<open>Migration Runner: the \<open>if (Array.isArray(config.migrations))\<close> branch\<close>

text \<open>
  The \<open>for\<close> loop over the sorted migrations, with its test inside. A migration whose
  promise rejects ends the loop, as the exception leaving \<open>await\<close> does; the structure
  is then as that migration left it, and the trace holds the calls made so far.
\<close>

fun run_migrations ::
  "int \<Rightarrow> int \<Rightarrow> Migration list \<Rightarrow> IDBDatabase \<Rightarrow> action list
     \<Rightarrow> (IDBDatabase \<times> Error option) \<times> action list" where
  "run_migrations oldVersion newVersion [] db tr = ((db, None), tr)"
| "run_migrations oldVersion newVersion (m # ms) db tr =
     (if mversion m > oldVersion \<and> mversion m \<le> newVersion
      then (case migration m oldVersion newVersion (mversion m) db of
              (db', Some e) \<Rightarrow>
                ((db', Some e), tr @ [Call_migration oldVersion newVersion (mversion m)])
            | (db', None) \<Rightarrow>
                run_migrations oldVersion newVersion ms db'
                  (tr @ [Call_migration oldVersion newVersion (mversion m)]))
      else run_migrations oldVersion newVersion ms db tr)"

subsection \<open>The handler\<close>

text \<open>
  The state of one open attempt: the caller's configuration object (the code writes to
  it), the live connection, the promise \<open>openIndexedDB\<close> returned, the trace, the
  exceptions that left an event handler uncaught, and the handlers that are suspended at
  an \<open>await\<close>. A promise keeps its first settlement: later calls of \<open>resolve\<close> or
  \<open>reject\<close> change nothing.
\<close>

definition settle :: "'a \<Rightarrow> 'a option \<Rightarrow> 'a option" where
  "settle v p = (case p of None \<Rightarrow> Some v | Some w \<Rightarrow> Some w)"

datatype open_continuation = After_onBlocked Error | After_onError Error

record open_state =
  oconfig :: IndexedDBConfig
  odb :: IDBDatabase
  opromise :: "(Error + IDBDatabase) option"
  otrace :: "action list"
  othrown :: "Error list"
  opending :: "open_continuation list"

text \<open>
  \<open>Array.prototype.sort\<close> is stable and sorts the array it is called on; with the
  comparator \<open>a.version - b.version\<close> on integers it is \<open>sort_key mversion\<close>, and the
  sorted array is the one \<open>config.migrations\<close> refers to afterwards. The upgrade
  handler is run as one step: its callbacks and migrations are taken to complete while
  the upgrade transaction is active, before the next event of the request. An exception
  leaves the handler where it is raised: the structure stays as it is then, and
  \<open>onUpgradeEnd\<close> is not called.
\<close>

definition onupgradeneeded ::
  "(string \<Rightarrow> bool) \<Rightarrow> int \<Rightarrow> int option \<Rightarrow> open_state \<Rightarrow> open_state" where
  "onupgradeneeded valid oldVersion eventNewVersion st =
     (let config = oconfig st;
          db = odb st;
          newVersion = (case eventNewVersion of None \<Rightarrow> version config | Some v \<Rightarrow> v);
          tr = call config onUpgradeStart (Call_onUpgradeStart db oldVersion newVersion) (otrace st)
      in case migrations config of
           Some ms \<Rightarrow>
             (let sorted_ms = sort_key mversion ms;
                  config' = config\<lparr>migrations := Some sorted_ms\<rparr>
              in case run_migrations oldVersion newVersion sorted_ms db tr of
                   ((db', Some e), tr') \<Rightarrow>
                     st\<lparr>oconfig := config', odb := db', otrace := tr',
                        othrown := othrown st @ [e]\<rparr>
                 | ((db', None), tr') \<Rightarrow>
                     st\<lparr>oconfig := config', odb := db',
                        otrace := call config' onUpgradeEnd
                                    (Call_onUpgradeEnd db' oldVersion newVersion) tr'\<rparr>)
         | None \<Rightarrow>
             (case schema_sync valid (stores config) db of
                (db', Some e) \<Rightarrow> st\<lparr>odb := db', otrace := tr, othrown := othrown st @ [e]\<rparr>
              | (db', None) \<Rightarrow>
                  st\<lparr>odb := db',
                     otrace := call config onUpgradeEnd
                                 (Call_onUpgradeEnd db' oldVersion newVersion) tr\<rparr>))"

section \<open>Opening the database (\<open>openIndexedDB\<close>)\<close>

text \<open>
  The events of the open request, and \<open>Ev_callback_done i\<close>: the callback that the
  \<open>i\<close>-th suspended handler awaits has completed, and the handler goes on. A handler
  that awaits is suspended even when there is nothing to wait for; the schedule in which
  it goes on at once is the one where its \<open>Ev_callback_done\<close> is the next event.
  Callbacks are taken to complete normally.
\<close>

datatype open_event =
    Ev_error Error
  | Ev_blocked int "int option"
  | Ev_upgradeneeded int "int option"
  | Ev_success
  | Ev_callback_done nat

text \<open>\<open>onerror\<close>: \<open>await onError(error)\<close>, then \<open>reject(error)\<close>.\<close>

definition open_onerror :: "Error \<Rightarrow> open_state \<Rightarrow> open_state" where
  "open_onerror error st =
     st\<lparr>otrace := call (oconfig st) onError (Call_onError (Some error)) (otrace st),
        opending := opending st @ [After_onError error]\<rparr>"

text \<open>
  \<open>onblocked\<close>: the default error, replaced by what \<open>onBlocked\<close> returns unless that
  is \<open>undefined\<close> (the \<open>??\<close> operator). With \<open>onBlocked\<close> configured the handler calls
  it and is suspended until it has completed; it then goes on as it does at once when
  \<open>onBlocked\<close> is not configured: \<open>await onError(error)\<close>, then \<open>reject(error)\<close>.
\<close>

definition blocked_error :: "IndexedDBConfig \<Rightarrow> int \<Rightarrow> int \<Rightarrow> Error" where
  "blocked_error config oldVersion newVersion =
     (let error = BlockedError (name config) newVersion oldVersion
      in case events config of
           None \<Rightarrow> error
         | Some ev \<Rightarrow>
             (case onBlocked ev of
                None \<Rightarrow> error
              | Some f \<Rightarrow> (case f oldVersion newVersion of None \<Rightarrow> error | Some e \<Rightarrow> e)))"

definition open_onblocked :: "int \<Rightarrow> int option \<Rightarrow> open_state \<Rightarrow> open_state" where
  "open_onblocked oldVersion eventNewVersion st =
     (let config = oconfig st;
          newVersion = (case eventNewVersion of None \<Rightarrow> version config | Some v \<Rightarrow> v);
          error = blocked_error config oldVersion newVersion
      in if configured config (\<lambda>ev. onBlocked ev \<noteq> None)
         then st\<lparr>otrace := otrace st @ [Call_onBlocked oldVersion newVersion],
                 opending := opending st @ [After_onBlocked error]\<rparr>
         else st\<lparr>otrace := call config onError (Call_onError (Some error)) (otrace st),
                 opending := opending st @ [After_onError error]\<rparr>)"

text \<open>A suspended handler goes on: it leaves the list and runs to its next \<open>await\<close> or end.\<close>

definition open_resume :: "nat \<Rightarrow> open_state \<Rightarrow> open_state" where
  "open_resume i st =
     (if i < length (opending st)
      then (let st' = st\<lparr>opending := take i (opending st) @ drop (Suc i) (opending st)\<rparr>
            in case opending st ! i of
                 After_onBlocked error \<Rightarrow>
                   st'\<lparr>otrace := call (oconfig st) onError (Call_onError (Some error)) (otrace st),
                       opending := opending st' @ [After_onError error]\<rparr>
               | After_onError error \<Rightarrow>
                   st'\<lparr>otrace := otrace st @ [Promise_reject error],
                       opromise := settle (Inl error) (opromise st)\<rparr>)
      else st)"

text \<open>
  \<open>onsuccess\<close> installs the version-change observer, builds the instance around the
  connection and resolves with it; it calls no callback and writes nothing to the
  configuration.
\<close>

definition open_onsuccess :: "open_state \<Rightarrow> open_state" where
  "open_onsuccess st =
     st\<lparr>otrace := otrace st @ [Promise_resolve_instance (odb st)],
        opromise := settle (Inr (odb st)) (opromise st)\<rparr>"

fun open_step :: "(string \<Rightarrow> bool) \<Rightarrow> open_state \<Rightarrow> open_event \<Rightarrow> open_state" where
  "open_step valid st (Ev_error e) = open_onerror e st"
| "open_step valid st (Ev_blocked old new) = open_onblocked old new st"
| "open_step valid st (Ev_upgradeneeded old new) = onupgradeneeded valid old new st"
| "open_step valid st Ev_success = open_onsuccess st"
| "open_step valid st (Ev_callback_done i) = open_resume i st"

text \<open>
  \<open>openIndexedDB\<close>: the default of \<open>transactionTimeout\<close> is written to the
  configuration (\<open>??\<close> replaces only an absent value), \<open>indexedDB.open\<close> is called
  once, and the handlers then run on the events the engine delivers; \<open>db\<close> is the
  connection the engine hands to the handlers.
\<close>

definition default_transactionTimeout :: "IndexedDBConfig \<Rightarrow> IndexedDBConfig" where
  "default_transactionTimeout config =
     config\<lparr>transactionTimeout :=
              Some (case transactionTimeout config of None \<Rightarrow> 5000 | Some t \<Rightarrow> t)\<rparr>"

definition openIndexedDB_init :: "IndexedDBConfig \<Rightarrow> IDBDatabase \<Rightarrow> open_state" where
  "openIndexedDB_init config db =
     (let config' = default_transactionTimeout config
      in \<lparr>oconfig = config', odb = db, opromise = None,
          otrace = [Engine_open (name config') (version config')], othrown = [],
          opending = []\<rparr>)"

definition openIndexedDB ::
  "(string \<Rightarrow> bool) \<Rightarrow> IndexedDBConfig \<Rightarrow> IDBDatabase \<Rightarrow> open_event list \<Rightarrow> open_state" where
  "openIndexedDB valid config db evs = foldl (open_step valid) (openIndexedDB_init config db) evs"

section \<open>The instance: \<open>useStore\<close> and \<open>transaction\<close>\<close>

text \<open>
  A promise under construction: its settlement and the trace. \<open>resolve\<close> and
  \<open>reject\<close> are the two functions the promise executor receives.
\<close>

record cell =
  settled :: "outcome option"
  trace :: "action list"

definition resolve :: "jsval \<Rightarrow> 'a cell_scheme \<Rightarrow> 'a cell_scheme" where
  "resolve v s =
     s\<lparr>settled := settle (Resolved v) (settled s), trace := trace s @ [Promise_resolve v]\<rparr>"

definition reject :: "Error \<Rightarrow> 'a cell_scheme \<Rightarrow> 'a cell_scheme" where
  "reject e s =
     s\<lparr>settled := settle (Rejected e) (settled s), trace := trace s @ [Promise_reject e]\<rparr>"

definition invoke ::
  "IndexedDBConfig \<Rightarrow> (Events \<Rightarrow> bool) \<Rightarrow> action \<Rightarrow> 'a cell_scheme \<Rightarrow> 'a cell_scheme" where
  "invoke config f a s = s\<lparr>trace := call config f a (trace s)\<rparr>"

text \<open>
  What the engine and the clock deliver to one request: a success event (with
  \<open>request.result\<close>), an error event (with \<open>request.error\<close>), and the passing of
  \<open>config.transactionTimeout\<close> milliseconds since the adapter was entered; and
  \<open>Callback_done i\<close>: the callback that the \<open>i\<close>-th suspended handler awaits has
  completed.
\<close>

datatype event = Success jsval | Failure Error | TimeoutElapsed | Callback_done nat

text \<open>
  The state of a timed promise. \<open>finished\<close> is the local flag of the source; \<open>timer\<close>
  says whether the timer of \<open>setTimeout\<close> is still pending: \<open>clearTimeout\<close> and the
  firing of the timer end that, and a timer that is no longer pending never runs its
  callback. \<open>pending\<close> holds the handlers that are suspended at an \<open>await\<close>, each
  with what it does when it goes on: \<open>reject\<close> with an error it already holds, or with
  \<open>transaction.error ?? new Error("Transaction aborted")\<close>, read at that moment. As for
  the open request, every \<open>await\<close> suspends, and callbacks are taken to complete
  normally. \<open>thrown\<close> holds the exceptions that left a handler uncaught.
\<close>

datatype continuation = Then_reject Error | Then_reject_transaction_error

record request_state = cell +
  finished :: bool
  timer :: bool
  pending :: "continuation list"
  thrown :: "Error list"

definition clearTimeout :: "request_state \<Rightarrow> request_state" where
  "clearTimeout s = s\<lparr>timer := False\<rparr>"

definition suspend :: "continuation \<Rightarrow> request_state \<Rightarrow> request_state" where
  "suspend k s = s\<lparr>pending := pending s @ [k]\<rparr>"

definition resume :: "Error option \<Rightarrow> nat \<Rightarrow> request_state \<Rightarrow> request_state" where
  "resume transaction_error i s =
     (if i < length (pending s)
      then (let s' = s\<lparr>pending := take i (pending s) @ drop (Suc i) (pending s)\<rparr>
            in case pending s ! i of
                 Then_reject e \<Rightarrow> reject e s'
               | Then_reject_transaction_error \<Rightarrow>
                   reject (case transaction_error of
                             None \<Rightarrow> Error ''Transaction aborted''
                           | Some e \<Rightarrow> e) s')
      else s)"

subsection \<open>Operation Adapter (\<open>iDBPromise\<close>)\<close>

definition iDBPromise_init :: request_state where
  "iDBPromise_init =
     \<lparr>settled = None, trace = [], finished = False, timer = True, pending = [], thrown = []\<rparr>"

text \<open>
  The callback of the timer: \<open>await onTransactionTimeout(...)\<close>, then
  \<open>reject(new Error("Transaction timeout"))\<close>.
\<close>

definition iDBPromise_timeout ::
  "IndexedDBConfig \<Rightarrow> IDBDatabase \<Rightarrow> string \<Rightarrow> request_state \<Rightarrow> request_state" where
  "iDBPromise_timeout config db storeName s =
     (if \<not> finished s
      then suspend (Then_reject (Error ''Transaction timeout''))
             (invoke config onTransactionTimeout
                (Call_onTransactionTimeout db [storeName] (transactionTimeout config)) s)
      else s)"

definition iDBPromise_onsuccess :: "jsval \<Rightarrow> request_state \<Rightarrow> request_state" where
  "iDBPromise_onsuccess result s = resolve result (clearTimeout (s\<lparr>finished := True\<rparr>))"

text \<open>
  \<open>onerror\<close>: \<open>clearTimeout\<close>, \<open>await onError(request.error)\<close>, then
  \<open>reject(request.error)\<close>. The error is read before and after the \<open>await\<close>; the
  request is done by then and keeps its error.
\<close>

definition iDBPromise_onerror ::
  "IndexedDBConfig \<Rightarrow> Error \<Rightarrow> request_state \<Rightarrow> request_state" where
  "iDBPromise_onerror config error s =
     suspend (Then_reject error)
       (invoke config onError (Call_onError (Some error)) (clearTimeout s))"

fun iDBPromise_step ::
  "IndexedDBConfig \<Rightarrow> IDBDatabase \<Rightarrow> string \<Rightarrow> request_state \<Rightarrow> event \<Rightarrow> request_state" where
  "iDBPromise_step config db storeName s (Success result) = iDBPromise_onsuccess result s"
| "iDBPromise_step config db storeName s (Failure error) = iDBPromise_onerror config error s"
| "iDBPromise_step config db storeName s TimeoutElapsed =
     (if timer s then iDBPromise_timeout config db storeName (s\<lparr>timer := False\<rparr>) else s)"
| "iDBPromise_step config db storeName s (Callback_done i) = resume None i s"

definition iDBPromise ::
  "IndexedDBConfig \<Rightarrow> IDBDatabase \<Rightarrow> string \<Rightarrow> event list \<Rightarrow> request_state" where
  "iDBPromise config db storeName evs =
     foldl (iDBPromise_step config db storeName) iDBPromise_init evs"

subsection \<open>Cursor Adapter (\<open>iDBCursorPromise\<close>)\<close>

text \<open>
  The adapter sets no timer: the passing of the timeout runs none of its code.
  \<open>resolve(data)\<close> hands over the array built so far. Its only \<open>await\<close> is that of
  \<open>onError\<close> in the error handler; the engine delivers no event for the request after
  its error event, so that handler is run as one step and there is nothing for
  \<open>Callback_done\<close> to resume.
\<close>

record cursor_state = cell +
  data :: "jsval list"

definition iDBCursorPromise_init :: cursor_state where
  "iDBCursorPromise_init = \<lparr>settled = None, trace = [], data = []\<rparr>"

definition iDBCursorPromise_onsuccess ::
  "(jsval \<Rightarrow> jsval) \<Rightarrow> jsval \<Rightarrow> cursor_state \<Rightarrow> cursor_state" where
  "iDBCursorPromise_onsuccess callback cursor s =
     (if \<not> truthy cursor then resolve (Array (data s)) s
      else (let result = callback cursor;
                s' = (if truthy result then s\<lparr>data := data s @ [result]\<rparr> else s)
            in s'\<lparr>trace := trace s' @ [Engine_continue]\<rparr>))"

definition iDBCursorPromise_onerror ::
  "IndexedDBConfig \<Rightarrow> Error \<Rightarrow> cursor_state \<Rightarrow> cursor_state" where
  "iDBCursorPromise_onerror config error s =
     reject error (invoke config onError (Call_onError (Some error)) s)"

fun iDBCursorPromise_step ::
  "IndexedDBConfig \<Rightarrow> (jsval \<Rightarrow> jsval) \<Rightarrow> cursor_state \<Rightarrow> event \<Rightarrow> cursor_state" where
  "iDBCursorPromise_step config callback s (Success cursor) =
     iDBCursorPromise_onsuccess callback cursor s"
| "iDBCursorPromise_step config callback s (Failure error) =
     iDBCursorPromise_onerror config error s"
| "iDBCursorPromise_step config callback s TimeoutElapsed = s"
| "iDBCursorPromise_step config callback s (Callback_done i) = s"

definition iDBCursorPromise ::
  "IndexedDBConfig \<Rightarrow> (jsval \<Rightarrow> jsval) \<Rightarrow> event list \<Rightarrow> cursor_state" where
  "iDBCursorPromise config callback evs =
     foldl (iDBCursorPromise_step config callback) iDBCursorPromise_init evs"

subsection \<open>The operation set of \<open>useStore\<close>\<close>

text \<open>
  Each operation opens a transaction of the engine on its store with
  \<open>db.transaction(storeName, mode)\<close>, issues one request and hands it to one of the
  two adapters. What the caller sees is the promise and the trace. The operations are
  \<open>async\<close> functions: an exception of the engine rejects the promise at once, and
  nothing else happens. \<open>db.transaction\<close> raises \<open>InvalidStateError\<close> on a
  connection that is closed or closing and \<open>NotFoundError\<close> for a store that the
  database does not have; \<open>raised\<close> is what the engine raises, if anything, when the
  request itself is issued (for a key it does not accept, for an index that is missing).
\<close>

datatype operation =
    Add | Put | Get | GetAll | GetKey | GetAllKeys
  | OpenCursor | OpenKeyCursor | Count | Clear | Delete

fun mode :: "operation \<Rightarrow> IDBTransactionMode" where
  "mode Add = Readwrite"
| "mode Put = Readwrite"
| "mode Get = Readonly"
| "mode GetAll = Readonly"
| "mode GetKey = Readonly"
| "mode GetAllKeys = Readonly"
| "mode OpenCursor = Readonly"
| "mode OpenKeyCursor = Readonly"
| "mode Count = Readwrite"
| "mode Clear = Readwrite"
| "mode Delete = Readwrite"

fun is_cursor :: "operation \<Rightarrow> bool" where
  "is_cursor OpenCursor = True"
| "is_cursor OpenKeyCursor = True"
| "is_cursor _ = False"

definition useStore ::
  "IndexedDBConfig \<Rightarrow> IDBDatabase \<Rightarrow> string \<Rightarrow> operation \<Rightarrow> Error option
     \<Rightarrow> (jsval \<Rightarrow> jsval) \<Rightarrow> event list \<Rightarrow> outcome option \<times> action list" where
  "useStore config db storeName op raised callback evs =
     (if closePending db
      then (Some (Rejected (DOMException ''InvalidStateError'')), [])
      else if storeName \<notin> set (objectStoreNames db)
      then (Some (Rejected (DOMException ''NotFoundError'')), [])
      else case raised of
             Some e \<Rightarrow> (Some (Rejected e), [Engine_transaction [storeName] (mode op)])
           | None \<Rightarrow>
               if is_cursor op
               then (let s = iDBCursorPromise config callback evs
                     in (settled s, Engine_transaction [storeName] (mode op) # trace s))
               else (let s = iDBPromise config db storeName evs
                     in (settled s, Engine_transaction [storeName] (mode op) # trace s)))"

subsection \<open>Transaction Coordinator (\<open>transaction\<close>)\<close>











section \<open>Observations and examples\<close>

text \<open>
  What the theorems read off a trace: the calls of configured callbacks, the versions of
  the migrations called, the calls of \<open>indexedDB.open\<close> and of the timeout callback,
  and the first call of \<open>resolve\<close> or \<open>reject\<close> with what it would settle the promise
  to.
\<close>

fun is_callback :: "action \<Rightarrow> bool" where
  "is_callback (Call_onError _) = True"
| "is_callback (Call_onBlocked _ _) = True"
| "is_callback (Call_onTransactionTimeout _ _ _) = True"
| "is_callback (Call_onUpgradeStart _ _ _) = True"
| "is_callback (Call_onUpgradeEnd _ _ _) = True"
| "is_callback _ = False"

fun is_timeout_callback :: "action \<Rightarrow> bool" where
  "is_timeout_callback (Call_onTransactionTimeout _ _ _) = True"
| "is_timeout_callback _ = False"


fun migration_calls :: "action list \<Rightarrow> int list" where
  "migration_calls [] = []"
| "migration_calls (Call_migration _ _ v # tr) = v # migration_calls tr"
| "migration_calls (_ # tr) = migration_calls tr"

fun first_settle :: "action list \<Rightarrow> outcome option" where
  "first_settle [] = None"
| "first_settle (Promise_resolve v # tr) = Some (Resolved v)"
| "first_settle (Promise_reject e # tr) = Some (Rejected e)"
| "first_settle (_ # tr) = first_settle tr"

fun is_upgradeneeded :: "open_event \<Rightarrow> bool" where
  "is_upgradeneeded (Ev_upgradeneeded _ _) = True"
| "is_upgradeneeded _ = False"

text \<open>
  The timer of a request runs its callback when the timeout passes before any success
  or error event; the timer of a transaction, when the timeout passes before any
  complete, error or abort event. Resumptions of suspended handlers do not count.
\<close>

fun timeout_first :: "event list \<Rightarrow> bool" where
  "timeout_first [] = False"
| "timeout_first (TimeoutElapsed # evs) = True"
| "timeout_first (Callback_done i # evs) = timeout_first evs"
| "timeout_first (_ # evs) = False"



text \<open>
  The engine keeps the names of the stores of a database distinct, and the names of the
  indexes of a store.
\<close>

definition wf_db :: "IDBDatabase \<Rightarrow> bool" where
  "wf_db db =
     (distinct (objectStoreNames db)
      \<and> list_all (\<lambda>p. distinct (indexNames (snd p))) (objectStores db))"

text \<open>The window of the Migration Runner and the index names a store schema asks for.\<close>

definition in_window :: "int \<Rightarrow> int \<Rightarrow> Migration \<Rightarrow> bool" where
  "in_window oldVersion newVersion m = (oldVersion < mversion m \<and> mversion m \<le> newVersion)"





text \<open>
  Examples: an engine that refuses a key path with a space in it; a database at version
  1 with the stores \<open>A\<close> (index \<open>by_x\<close>) and \<open>B\<close> (indexes \<open>by_x\<close> and \<open>by_y\<close>); a
  configuration for version 2 that asks for the stores \<open>B\<close> (indexes \<open>by_y\<close>, on
  another key path, and \<open>by_z\<close>) and \<open>C\<close>; that configuration as \<open>openIndexedDB\<close>
  leaves it, which is the one the instance works with; and a migration that creates one
  store.
\<close>

definition ex_valid :: "string \<Rightarrow> bool" where
  "ex_valid kp = (CHR '' '' \<notin> set kp)"

definition ex_events :: Events where
  "ex_events =
     \<lparr>onBlocked = None, onError = True, onTransactionTimeout = True,
      onUpgradeStart = True, onUpgradeEnd = True, onVersionChange = True\<rparr>"

definition ex_db :: IDBDatabase where
  "ex_db =
     \<lparr>dname = ''d1'', dversion = 1,
      objectStores =
        [(''A'', \<lparr>parameters = None,
                  indexes = [(''by_x'', \<lparr>xkeyPath = ''x'', xoptions = None\<rparr>)]\<rparr>),
         (''B'', \<lparr>parameters = None,
                  indexes = [(''by_x'', \<lparr>xkeyPath = ''x'', xoptions = None\<rparr>),
                             (''by_y'', \<lparr>xkeyPath = ''y_old'', xoptions = None\<rparr>)]\<rparr>)],
      closePending = False\<rparr>"

definition ex_config :: IndexedDBConfig where
  "ex_config =
     \<lparr>name = ''d1'', version = 2,
      stores =
        [\<lparr>sname = ''B'', soptions = None,
          sindex = Some [\<lparr>iname = ''by_y'', ikeyPath = ''y'', ioptions = None\<rparr>,
                         \<lparr>iname = ''by_z'', ikeyPath = ''z'', ioptions = None\<rparr>]\<rparr>,
         \<lparr>sname = ''C'', soptions = None, sindex = None\<rparr>],
      migrations = None, transactionTimeout = None, events = Some ex_events\<rparr>"

definition ex_instance_config :: IndexedDBConfig where
  "ex_instance_config = default_transactionTimeout ex_config"

definition ex_migration :: "int \<Rightarrow> string \<Rightarrow> Migration" where
  "ex_migration v n =
     \<lparr>mversion = v,
      migration = (\<lambda>oldVersion newVersion mv db.
                     case createObjectStore ex_valid n None db of
                       Inl e \<Rightarrow> (db, Some e)
                     | Inr db' \<Rightarrow> (db', None))\<rparr>"

section \<open>Properties of the adapters\<close>

lemma settle_Some [simp]: "settle v (Some w) = Some w"
  by (simp add: settle_def)

lemma settle_None [simp]: "settle v None = Some v"
  by (simp add: settle_def)

lemma call_eq: "call config f a tr = tr @ (if configured config f then [a] else [])"
  by (simp add: call_def)

lemma first_settle_append:
  "first_settle (tr @ tr')
     = (case first_settle tr of None \<Rightarrow> first_settle tr' | Some out \<Rightarrow> Some out)"
  by (induction tr rule: first_settle.induct) simp_all

lemma configured_default [simp]:
  "configured (default_transactionTimeout config) f = configured config f"
  by (simp add: configured_def default_transactionTimeout_def)

lemmas adapter_defs =
  iDBPromise_onsuccess_def iDBPromise_onerror_def iDBPromise_timeout_def
  clearTimeout_def suspend_def resolve_def reject_def invoke_def call_eq

subsection \<open>Cursor Adapter\<close>

lemma cursor_steps:
  "\<forall>c\<in>set cs. truthy c \<Longrightarrow>
   foldl (iDBCursorPromise_step config callback) s (map Success cs) =
     s\<lparr>data := data s @ filter truthy (map callback cs),
       trace := trace s @ replicate (length cs) Engine_continue\<rparr>"
proof (induction cs arbitrary: s)
  case Nil
  then show ?case by simp
next
  case (Cons c cs)
  then show ?case
    by (simp add: iDBCursorPromise_onsuccess_def Let_def replicate_app_Cons_same)
qed

text \<open>
  Claim C8. A cursor request delivers a success event per record, with the cursor as
  its result, then a success event whose result is \<open>null\<close>. The promise then resolves
  with the truthy results of the callback, in the order of the traversal, after one
  \<open>continue\<close> per record. If an error event comes instead of the end, \<open>onError\<close> is
  called (when configured) with that error and the promise rejects with it: the
  settlement carries the error and none of the results collected so far.
\<close>

theorem cursor_adapter_result:
  assumes "\<forall>c\<in>set cs. truthy c" and "\<not> truthy end"
  shows "settled (iDBCursorPromise config callback (map Success cs @ [Success end]))
           = Some (Resolved (Array (filter truthy (map callback cs))))
       \<and> trace (iDBCursorPromise config callback (map Success cs @ [Success end]))
           = replicate (length cs) Engine_continue
             @ [Promise_resolve (Array (filter truthy (map callback cs)))]
       \<and> settled (iDBCursorPromise config callback (map Success cs @ [Failure e]))
           = Some (Rejected e)
       \<and> trace (iDBCursorPromise config callback (map Success cs @ [Failure e]))
           = replicate (length cs) Engine_continue
             @ (if configured config onError then [Call_onError (Some e)] else [])
             @ [Promise_reject e]"
  using assms
  by (simp add: iDBCursorPromise_def cursor_steps iDBCursorPromise_onsuccess_def
      iDBCursorPromise_onerror_def iDBCursorPromise_init_def resolve_def reject_def
      invoke_def call_eq)

text \<open>
  The theorem at a traversal of three records whose second result is dropped.
\<close>

theorem cursor_adapter_result_witness:
  "list_all truthy [Number 1, Number 2, Number 3] \<and> \<not> truthy Null
   \<and> settled (iDBCursorPromise ex_config (\<lambda>c. if c = Number 2 then Undefined else c)
        (map Success [Number 1, Number 2, Number 3] @ [Success Null]))
       = Some (Resolved (Array [Number 1, Number 3]))
   \<and> settled (iDBCursorPromise ex_config (\<lambda>c. if c = Number 2 then Undefined else c)
        (map Success [Number 1, Number 2, Number 3] @ [Failure (DOMException ''DataError'')]))
       = Some (Rejected (DOMException ''DataError''))"
  using cursor_adapter_result [of "[Number 1, Number 2, Number 3]" Null ex_config
      "\<lambda>c. if c = Number 2 then Undefined else c" "DOMException ''DataError''"]
  by simp

subsection \<open>Suspended handlers\<close>

text \<open>
  A handler that goes on calls \<open>reject\<close> and nothing else: it leaves the flag and the
  timer alone and calls no callback.
\<close>

lemma resume_frame:
  "timer (resume te i s) = timer s"
  "finished (resume te i s) = finished s"
  "thrown (resume te i s) = thrown s"
  "filter is_callback (trace (resume te i s)) = filter is_callback (trace s)"
  "filter is_timeout_callback (trace (resume te i s)) = filter is_timeout_callback (trace s)"
  "Engine_abort \<in> set (trace (resume te i s)) \<longleftrightarrow> Engine_abort \<in> set (trace s)"
  by (simp_all add: resume_def Let_def reject_def split: continuation.splits)

lemma resume_settled:
  "settled s = Some out \<Longrightarrow> settled (resume te i s) = Some out"
  by (simp add: resume_def Let_def reject_def split: continuation.splits)

lemma resume_first_settle:
  "settled s = first_settle (trace s) \<Longrightarrow>
   settled (resume te i s) = first_settle (trace (resume te i s))"
  by (cases "first_settle (trace s)")
     (simp_all add: resume_def Let_def reject_def first_settle_append
        split: continuation.splits)

subsection \<open>Operation Adapter\<close>

lemma iDBPromise_snoc:
  "iDBPromise config db sn (evs @ [ev])
     = iDBPromise_step config db sn (iDBPromise config db sn evs) ev"
  by (simp add: iDBPromise_def)

lemma iDBPromise_append:
  "iDBPromise config db sn (evs @ evs')
     = foldl (iDBPromise_step config db sn) (iDBPromise config db sn evs) evs'"
  by (simp add: iDBPromise_def)

lemma iDBPromise_step_settled:
  "settled s = Some out \<Longrightarrow> settled (iDBPromise_step config db sn s ev) = Some out"
  by (cases ev) (simp_all add: adapter_defs resume_settled)

lemma iDBPromise_steps_settled:
  "settled s = Some out \<Longrightarrow> settled (foldl (iDBPromise_step config db sn) s evs) = Some out"
  by (induction evs arbitrary: s) (simp_all add: iDBPromise_step_settled)

lemma iDBPromise_step_first_settle:
  "settled s = first_settle (trace s) \<Longrightarrow>
   settled (iDBPromise_step config db sn s ev)
     = first_settle (trace (iDBPromise_step config db sn s ev))"
  by (cases ev; cases "first_settle (trace s)")
     (simp_all add: adapter_defs resume_first_settle first_settle_append)

lemma iDBPromise_first_settle:
  "settled (iDBPromise config db sn evs) = first_settle (trace (iDBPromise config db sn evs))"
proof (induction evs rule: rev_induct)
  case Nil
  then show ?case by (simp add: iDBPromise_def iDBPromise_init_def)
next
  case (snoc ev evs)
  then show ?case by (simp add: iDBPromise_snoc iDBPromise_step_first_settle)
qed

lemma iDBPromise_step_timer:
  "timer (iDBPromise_step config db sn s ev) = (timer s \<and> ev \<in> range Callback_done)"
  by (cases ev) (auto simp: adapter_defs resume_frame)

lemma iDBPromise_timer:
  "timer (iDBPromise config db sn evs) = (set evs \<subseteq> range Callback_done)"
proof (induction evs rule: rev_induct)
  case Nil
  then show ?case by (simp add: iDBPromise_def iDBPromise_init_def)
next
  case (snoc ev evs)
  then show ?case by (auto simp: iDBPromise_snoc iDBPromise_step_timer)
qed

lemma iDBPromise_timer_unfinished:
  "timer (iDBPromise config db sn evs) \<Longrightarrow> \<not> finished (iDBPromise config db sn evs)"
proof (induction evs rule: rev_induct)
  case Nil
  then show ?case by (simp add: iDBPromise_def iDBPromise_init_def)
next
  case (snoc ev evs)
  then show ?case
    by (cases ev) (auto simp: iDBPromise_snoc iDBPromise_step_timer adapter_defs resume_frame)
qed

lemma timeout_first_snoc:
  "timeout_first (evs @ [ev])
     = (timeout_first evs \<or> (set evs \<subseteq> range Callback_done \<and> ev = TimeoutElapsed))"
  by (induction evs rule: timeout_first.induct) (cases ev; auto)+

lemma no_failure_yet:
  "set evs \<subseteq> range Callback_done \<Longrightarrow> [Call_onError (Some e). Failure e \<leftarrow> evs] = []"
  by (induction evs) auto

lemma timeout_first_not_done:
  "timeout_first evs \<Longrightarrow> \<not> set evs \<subseteq> range Callback_done"
  by (induction evs rule: timeout_first.induct) auto

lemma iDBPromise_callbacks:
  "filter is_callback (trace (iDBPromise config db sn evs))
     = (if timeout_first evs \<and> configured config onTransactionTimeout
        then [Call_onTransactionTimeout db [sn] (transactionTimeout config)] else [])
       @ (if configured config onError then [Call_onError (Some e). Failure e \<leftarrow> evs] else [])"
proof (induction evs rule: rev_induct)
  case Nil
  then show ?case by (simp add: iDBPromise_def iDBPromise_init_def)
next
  case (snoc ev evs)
  let ?s = "iDBPromise config db sn evs"
  show ?case
  proof (cases ev)
    case (Success v)
    then show ?thesis
      using snoc by (simp add: iDBPromise_snoc adapter_defs timeout_first_snoc)
  next
    case (Failure e)
    then show ?thesis
      using snoc by (simp add: iDBPromise_snoc adapter_defs timeout_first_snoc)
  next
    case (Callback_done i)
    then show ?thesis
      using snoc by (simp add: iDBPromise_snoc resume_frame timeout_first_snoc)
  next
    case TimeoutElapsed
    show ?thesis
    proof (cases "set evs \<subseteq> range Callback_done")
      case True
      then have t: "timer ?s" "\<not> finished ?s" "\<not> timeout_first evs"
        using iDBPromise_timer[of config db sn evs] iDBPromise_timer_unfinished[of config db sn evs]
          timeout_first_not_done[of evs] by auto
      show ?thesis
        using snoc t True TimeoutElapsed
        by (simp add: iDBPromise_snoc adapter_defs timeout_first_snoc no_failure_yet[OF True])
    next
      case False
      then have "\<not> timer ?s"
        using iDBPromise_timer[of config db sn evs] by simp
      then show ?thesis
        using snoc False TimeoutElapsed by (simp add: iDBPromise_snoc timeout_first_snoc)
    qed
  qed
qed

lemma iDBPromise_no_abort:
  "Engine_abort \<notin> set (trace (iDBPromise config db sn evs))"
proof (induction evs rule: rev_induct)
  case Nil
  then show ?case by (simp add: iDBPromise_def iDBPromise_init_def)
next
  case (snoc ev evs)
  then show ?case
    by (cases ev) (simp_all add: iDBPromise_snoc adapter_defs resume_frame)
qed

lemma iDBPromise_prompt:
  "settled (iDBPromise config db sn (Success v # evs)) = Some (Resolved v)"
  "settled (iDBPromise config db sn (Failure e # Callback_done 0 # evs)) = Some (Rejected e)"
  "settled (iDBPromise config db sn (TimeoutElapsed # Callback_done 0 # evs))
     = Some (Rejected (Error ''Transaction timeout''))"
  "settled (iDBPromise config db sn (TimeoutElapsed # Success v # evs)) = Some (Resolved v)"
  by (simp_all add: iDBPromise_def iDBPromise_steps_settled iDBPromise_init_def adapter_defs
      resume_def)

text \<open>
  Claim C1, as the code has it. The promise keeps its first settlement: its state is
  what the first call of \<open>resolve\<close> or \<open>reject\<close> made it, and no later event
  changes it. A success or an error event cancels the timer, so that the timeout
  callback is called once, when the timeout passes before any success or error event,
  and never otherwise. No handler looks at a flag before it reacts: every error event
  calls \<open>onError\<close> (when configured), also after the promise has settled, and neither
  the timeout path nor the error path sets \<open>finished\<close>. When the handler of the
  first event has run to its end before the next event arrives, that event decides the
  settlement: resolved with the result on success, rejected with the error on error,
  rejected with the timeout error on timeout.
\<close>

theorem iDBPromise_settles_once:
  "settled (iDBPromise config db storeName evs)
     = first_settle (trace (iDBPromise config db storeName evs))
   \<and> settled (iDBPromise config db storeName (evs @ evs'))
       = (case settled (iDBPromise config db storeName evs) of
            None \<Rightarrow> settled (iDBPromise config db storeName (evs @ evs'))
          | Some out \<Rightarrow> Some out)
   \<and> timer (iDBPromise config db storeName (evs @ [Success v])) = False
   \<and> timer (iDBPromise config db storeName (evs @ [Failure e])) = False
   \<and> filter is_callback (trace (iDBPromise config db storeName evs))
       = (if timeout_first evs \<and> configured config onTransactionTimeout
          then [Call_onTransactionTimeout db [storeName] (transactionTimeout config)] else [])
         @ (if configured config onError then [Call_onError (Some x). Failure x \<leftarrow> evs] else [])
   \<and> finished (iDBPromise config db storeName (evs @ [TimeoutElapsed]))
       = finished (iDBPromise config db storeName evs)
   \<and> finished (iDBPromise config db storeName (evs @ [Failure e]))
       = finished (iDBPromise config db storeName evs)
   \<and> settled (iDBPromise config db storeName (Success v # evs)) = Some (Resolved v)
   \<and> settled (iDBPromise config db storeName (Failure e # Callback_done 0 # evs))
       = Some (Rejected e)
   \<and> settled (iDBPromise config db storeName (TimeoutElapsed # Callback_done 0 # evs))
       = Some (Rejected (Error ''Transaction timeout''))"
proof -
  have stable: "settled (iDBPromise config db storeName (evs @ evs'))
       = (case settled (iDBPromise config db storeName evs) of
            None \<Rightarrow> settled (iDBPromise config db storeName (evs @ evs'))
          | Some out \<Rightarrow> Some out)"
    by (cases "settled (iDBPromise config db storeName evs)")
       (simp_all add: iDBPromise_append iDBPromise_steps_settled)
  have flag: "finished (iDBPromise config db storeName (evs @ [TimeoutElapsed]))
       = finished (iDBPromise config db storeName evs)"
    "finished (iDBPromise config db storeName (evs @ [Failure e]))
       = finished (iDBPromise config db storeName evs)"
    by (simp_all add: iDBPromise_snoc adapter_defs)
  have cancel: "timer (iDBPromise config db storeName (evs @ [Success v])) = False"
    "timer (iDBPromise config db storeName (evs @ [Failure e])) = False"
    by (simp_all add: iDBPromise_snoc adapter_defs)
  show ?thesis
    by (intro conjI iDBPromise_first_settle stable cancel iDBPromise_callbacks flag
        iDBPromise_prompt)
qed

text \<open>
  Claim C1, as stated, fails: with both callbacks configured, the timeout rejects the
  promise, and the error event that arrives afterwards still calls \<open>onError\<close> and
  \<open>reject\<close>, so two callback paths have run; and the timeout path leaves \<open>finished\<close>
  unset.
\<close>

theorem error_after_timeout_counterexample:
  "trace (iDBPromise ex_instance_config ex_db ''A''
        [TimeoutElapsed, Callback_done 0, Failure (DOMException ''AbortError''), Callback_done 0])
     = [Call_onTransactionTimeout ex_db [''A''] (Some 5000),
        Promise_reject (Error ''Transaction timeout''),
        Call_onError (Some (DOMException ''AbortError'')),
        Promise_reject (DOMException ''AbortError'')]
   \<and> settled (iDBPromise ex_instance_config ex_db ''A'' [TimeoutElapsed, Callback_done 0])
       = Some (Rejected (Error ''Transaction timeout''))
   \<and> finished (iDBPromise ex_instance_config ex_db ''A'' [TimeoutElapsed, Callback_done 0])
       = False"
  by (simp add: iDBPromise_def iDBPromise_init_def adapter_defs resume_def configured_def
      ex_instance_config_def default_transactionTimeout_def ex_config_def ex_events_def)

text \<open>
  Claim C7, as the code has it. When the timeout passes before any success or error
  event, the adapter calls \<open>onTransactionTimeout\<close> (when configured) with the
  connection, the store name and \<open>config.transactionTimeout\<close> and waits for it; the
  promise is still pending then. When the callback has completed the adapter calls
  \<open>reject\<close> with the timeout error. It never calls \<open>abort\<close>. Once the promise is
  rejected in this way it stays so whatever events follow, and a success that arrives
  later calls no callback; an error that arrives later still calls \<open>onError\<close>. A
  success that arrives while the callback is awaited resolves the promise.
\<close>

theorem iDBPromise_timeout_keeps_operation:
  "trace (iDBPromise config db storeName [TimeoutElapsed])
     = (if configured config onTransactionTimeout
        then [Call_onTransactionTimeout db [storeName] (transactionTimeout config)] else [])
   \<and> settled (iDBPromise config db storeName [TimeoutElapsed]) = None
   \<and> trace (iDBPromise config db storeName [TimeoutElapsed, Callback_done 0])
       = (if configured config onTransactionTimeout
          then [Call_onTransactionTimeout db [storeName] (transactionTimeout config)] else [])
         @ [Promise_reject (Error ''Transaction timeout'')]
   \<and> Engine_abort \<notin> set (trace (iDBPromise config db storeName evs))
   \<and> settled (iDBPromise config db storeName (TimeoutElapsed # Callback_done 0 # evs))
       = Some (Rejected (Error ''Transaction timeout''))
   \<and> filter is_callback (trace (iDBPromise config db storeName (evs @ [Success v])))
       = filter is_callback (trace (iDBPromise config db storeName evs))
   \<and> filter is_callback (trace (iDBPromise config db storeName (evs @ [Failure e])))
       = filter is_callback (trace (iDBPromise config db storeName evs))
         @ (if configured config onError then [Call_onError (Some e)] else [])
   \<and> settled (iDBPromise config db storeName (TimeoutElapsed # Success v # evs))
       = Some (Resolved v)"
proof -
  have first: "trace (iDBPromise config db storeName [TimeoutElapsed])
     = (if configured config onTransactionTimeout
        then [Call_onTransactionTimeout db [storeName] (transactionTimeout config)] else [])"
    "settled (iDBPromise config db storeName [TimeoutElapsed]) = None"
    "trace (iDBPromise config db storeName [TimeoutElapsed, Callback_done 0])
       = (if configured config onTransactionTimeout
          then [Call_onTransactionTimeout db [storeName] (transactionTimeout config)] else [])
         @ [Promise_reject (Error ''Transaction timeout'')]"
    by (simp_all add: iDBPromise_def iDBPromise_init_def adapter_defs resume_def)
  have later: "filter is_callback (trace (iDBPromise config db storeName (evs @ [Success v])))
       = filter is_callback (trace (iDBPromise config db storeName evs))"
    "filter is_callback (trace (iDBPromise config db storeName (evs @ [Failure e])))
       = filter is_callback (trace (iDBPromise config db storeName evs))
         @ (if configured config onError then [Call_onError (Some e)] else [])"
    by (simp_all add: iDBPromise_snoc adapter_defs)
  show ?thesis
    using first later by (simp add: iDBPromise_no_abort iDBPromise_prompt)
qed

text \<open>
  Claim C7, as stated, fails: the timeout passes and \<open>onTransactionTimeout\<close> is
  called; while it is awaited the request succeeds, and its result is not discarded: it
  settles the promise, and the \<open>reject\<close> that follows the callback has no effect.
\<close>

theorem success_during_timeout_callback_counterexample:
  "trace (iDBPromise ex_instance_config ex_db ''A''
        [TimeoutElapsed, Success (Number 7), Callback_done 0])
     = [Call_onTransactionTimeout ex_db [''A''] (Some 5000),
        Promise_resolve (Number 7),
        Promise_reject (Error ''Transaction timeout'')]
   \<and> settled (iDBPromise ex_instance_config ex_db ''A''
        [TimeoutElapsed, Success (Number 7), Callback_done 0])
       = Some (Resolved (Number 7))"
  by (simp add: iDBPromise_def iDBPromise_init_def adapter_defs resume_def configured_def
      ex_instance_config_def default_transactionTimeout_def ex_config_def ex_events_def)

subsection \<open>The cursor operations and the timeout\<close>

lemma cursor_ignores_timeout:
  "iDBCursorPromise config callback (TimeoutElapsed # evs) = iDBCursorPromise config callback evs"
  "iDBCursorPromise config callback (Callback_done i # evs) = iDBCursorPromise config callback evs"
  by (simp_all add: iDBCursorPromise_def)

lemma cursor_only_timeouts:
  "foldl (iDBCursorPromise_step config callback) s (replicate n TimeoutElapsed) = s"
  by (induction n) simp_all

text \<open>
  Claim C6 fails on the code. On an open connection and a store that the database has,
  and with a request the engine accepts, \<open>openCursor\<close> and \<open>openKeyCursor\<close> open a
  transaction of the engine directly and wrap the request in \<open>iDBCursorPromise\<close>,
  which sets no timer: however often the timeout passes, the promise stays pending and
  nothing is called. For the other nine operations the passing of the timeout, as first
  event and with the callback completed before the next event, rejects the promise with
  the timeout error.
\<close>

theorem cursor_operations_not_timeout_bounded:
  assumes "\<not> closePending db" and "storeName \<in> set (objectStoreNames db)"
  shows "useStore config db storeName OpenCursor None callback (replicate n TimeoutElapsed)
     = (None, [Engine_transaction [storeName] Readonly])
   \<and> useStore config db storeName OpenKeyCursor None callback (replicate n TimeoutElapsed)
     = (None, [Engine_transaction [storeName] Readonly])
   \<and> fst (useStore config db storeName op None callback (TimeoutElapsed # Callback_done 0 # evs))
     = (if is_cursor op then fst (useStore config db storeName op None callback evs)
        else Some (Rejected (Error ''Transaction timeout'')))"
  using assms
  by (simp add: useStore_def cursor_ignores_timeout Let_def iDBCursorPromise_def
      cursor_only_timeouts iDBCursorPromise_init_def iDBPromise_prompt)

text \<open>
  The theorem at store \<open>A\<close> of the example: three timeouts leave \<open>openCursor\<close>
  pending, one rejects \<open>get\<close>.
\<close>

theorem cursor_operations_not_timeout_bounded_witness:
  "\<not> closePending ex_db \<and> ''A'' \<in> set (objectStoreNames ex_db)
   \<and> useStore ex_instance_config ex_db ''A'' OpenCursor None (\<lambda>c. c)
        (replicate 3 TimeoutElapsed)
     = (None, [Engine_transaction [''A''] Readonly])
   \<and> fst (useStore ex_instance_config ex_db ''A'' Get None (\<lambda>c. c)
        [TimeoutElapsed, Callback_done 0])
     = Some (Rejected (Error ''Transaction timeout''))"
proof -
  have h: "\<not> closePending ex_db" "''A'' \<in> set (objectStoreNames ex_db)"
    by (simp_all add: ex_db_def objectStoreNames_def)
  from cursor_operations_not_timeout_bounded[OF h, of ex_instance_config "\<lambda>c. c" 3 Get "[]"] h
  show ?thesis by simp
qed


subsection \<open>Transaction Coordinator\<close>



















section \<open>Properties of the open sequence\<close>











subsection \<open>What \<open>openIndexedDB\<close> writes to the configuration\<close>

lemma sort_key_twice: "sort_key f (sort_key f xs) = sort_key f xs"
  by (simp add: sort_key_id_if_sorted)

lemma open_step_config:
  "oconfig (open_step valid st ev)
     = (if is_upgradeneeded ev
        then (oconfig st)\<lparr>migrations := map_option (sort_key mversion) (migrations (oconfig st))\<rparr>
        else oconfig st)"
proof (cases ev)
  case (Ev_upgradeneeded old nv)
  show ?thesis
  proof (cases "migrations (oconfig st)")
    case None
    then show ?thesis using Ev_upgradeneeded
      by (simp add: onupgradeneeded_def Let_def split: prod.splits option.splits)
  next
    case (Some ms)
    then show ?thesis using Ev_upgradeneeded
      by (simp add: onupgradeneeded_def Let_def split: prod.splits option.splits)
  qed
qed (simp_all add: open_onerror_def open_onblocked_def open_onsuccess_def open_resume_def
       Let_def split: open_continuation.splits)

lemma open_steps_config:
  "oconfig (foldl (open_step valid) st evs)
     = (if list_ex is_upgradeneeded evs
        then (oconfig st)\<lparr>migrations := map_option (sort_key mversion) (migrations (oconfig st))\<rparr>
        else oconfig st)"
proof (induction evs arbitrary: st)
  case Nil
  then show ?case by simp
next
  case (Cons ev evs)
  show ?case
    by (simp add: Cons.IH open_step_config option.map_comp comp_def sort_key_twice)
qed

text \<open>
  Claim C10, as the code has it. After \<open>openIndexedDB\<close>, whatever events the engine
  delivered, the caller's configuration differs from the one supplied in two fields at
  most: \<open>transactionTimeout\<close> holds 5000 where it was absent (and its old value
  otherwise), and \<open>migrations\<close>, when it is an array, is sorted by version if an
  upgrade-needed event was handled; without such an event it is as supplied.
\<close>

theorem openIndexedDB_config_frame:
  "oconfig (openIndexedDB valid config db evs)
     = config\<lparr>transactionTimeout :=
                 Some (case transactionTimeout config of None \<Rightarrow> 5000 | Some t \<Rightarrow> t),
               migrations :=
                 (if list_ex is_upgradeneeded evs
                  then map_option (sort_key mversion) (migrations config)
                  else migrations config)\<rparr>"
  by (simp add: openIndexedDB_def open_steps_config openIndexedDB_init_def
      default_transactionTimeout_def)

text \<open>
  Claim C10, as stated, fails: opening a database that is already at the configured
  version delivers no upgrade-needed event, and the migrations stay in the order
  supplied.
\<close>

theorem migrations_not_sorted_counterexample:
  "map_option (map mversion)
     (migrations (oconfig (openIndexedDB ex_valid
        (ex_config\<lparr>migrations := Some [ex_migration 2 ''C'', ex_migration 1 ''B'']\<rparr>)
        (ex_db\<lparr>dversion := 2\<rparr>) [Ev_success])))
     = Some [2, 1]"
  by (simp add: openIndexedDB_def openIndexedDB_init_def open_onsuccess_def ex_config_def
      ex_migration_def default_transactionTimeout_def)


subsection \<open>Migration Runner\<close>

lemma run_migrations_ok:
  "run_migrations old new ms db tr = ((db', None), tr') \<Longrightarrow>
   tr' = tr @ map (\<lambda>m. Call_migration old new (mversion m)) (filter (in_window old new) ms)
   \<and> db' = foldl (\<lambda>d m. fst (migration m old new (mversion m) d))
               db (filter (in_window old new) ms)"
proof (induction ms arbitrary: db tr)
  case Nil
  then show ?case by simp
next
  case (Cons m ms)
  show ?case
  proof (cases "in_window old new m")
    case False
    with Cons.prems have "run_migrations old new ms db tr = ((db', None), tr')"
      by (auto simp: in_window_def split: if_splits)
    from Cons.IH[OF this] show ?thesis using False by simp
  next
    case True
    obtain d1 r where d1: "migration m old new (mversion m) db = (d1, r)"
      by (cases "migration m old new (mversion m) db")
    have r: "r = None"
      using True Cons.prems d1 by (cases r) (auto simp: in_window_def)
    with True Cons.prems d1 have
      "run_migrations old new ms d1 (tr @ [Call_migration old new (mversion m)])
         = ((db', None), tr')"
      by (simp add: in_window_def)
    from Cons.IH[OF this] show ?thesis using True d1 by simp
  qed
qed

lemma migration_calls_append:
  "migration_calls (tr @ tr') = migration_calls tr @ migration_calls tr'"
  by (induction tr rule: migration_calls.induct) simp_all

lemma migration_calls_map:
  "migration_calls (map (\<lambda>m. Call_migration old new (mversion m)) ms) = map mversion ms"
  by (induction ms) simp_all

lemma migration_calls_call:
  "\<not> (\<exists>a b c. x = Call_migration a b c) \<Longrightarrow> migration_calls (call config f x tr) = migration_calls tr"
  by (cases x) (simp_all add: call_eq migration_calls_append)

lemma sorted_selected:
  "sorted (map mversion (filter P (sort_key mversion ms)))"
  by (simp add: sorted_filter)

lemma strict_sorted_selected:
  assumes "distinct (map mversion ms)"
  shows "sorted_wrt (<) (map mversion (filter P (sort_key mversion ms)))"
proof -
  have "distinct (map mversion (sort_key mversion ms))"
    using assms by (simp add: distinct_map)
  then have "distinct (map mversion (filter P (sort_key mversion ms)))"
    by (rule distinct_map_filter)
  then show ?thesis
    by (simp add: strict_sorted_iff sorted_selected)
qed

lemma upgrade_with_migrations:
  assumes "migrations (oconfig st) = Some ms"
    and "newVersion = (case eventNewVersion of None \<Rightarrow> version (oconfig st) | Some v \<Rightarrow> v)"
    and "run_migrations oldVersion newVersion (sort_key mversion ms) (odb st)
           (call (oconfig st) onUpgradeStart
              (Call_onUpgradeStart (odb st) oldVersion newVersion) (otrace st)) = ((db', r), tr')"
  shows "onupgradeneeded valid oldVersion eventNewVersion st
     = (case r of
          Some e \<Rightarrow> st\<lparr>oconfig := (oconfig st)\<lparr>migrations := Some (sort_key mversion ms)\<rparr>,
                       odb := db', otrace := tr', othrown := othrown st @ [e]\<rparr>
        | None \<Rightarrow> st\<lparr>oconfig := (oconfig st)\<lparr>migrations := Some (sort_key mversion ms)\<rparr>,
                     odb := db',
                     otrace := call ((oconfig st)\<lparr>migrations := Some (sort_key mversion ms)\<rparr>)
                                 onUpgradeEnd (Call_onUpgradeEnd db' oldVersion newVersion) tr'\<rparr>)"
  using assms(1) assms(3)[unfolded assms(2)]
  by (cases r) (simp_all add: onupgradeneeded_def Let_def assms(2))

text \<open>
  Claim C3, as the code has it. When no migration fails, the migrations called during
  an upgrade are those of the configured list, sorted by version (stably), whose version
  \<open>v\<close> satisfies \<open>oldVersion < v \<le> newVersion\<close>, each called once, in that order;
  the versions called are ascending, and strictly ascending when the configured
  versions are distinct. Each migration works on the structure the one before it left,
  and the structure after the upgrade is what the last one left: the runner changes
  nothing itself.
\<close>

theorem migration_runner_order:
  assumes "othrown (openIndexedDB valid (config\<lparr>migrations := Some ms\<rparr>) db
             [Ev_upgradeneeded oldVersion eventNewVersion]) = []"
  shows
  "(let newVersion = (case eventNewVersion of None \<Rightarrow> version config | Some v \<Rightarrow> v);
        selected = filter (in_window oldVersion newVersion) (sort_key mversion ms);
        st = openIndexedDB valid (config\<lparr>migrations := Some ms\<rparr>) db
               [Ev_upgradeneeded oldVersion eventNewVersion]
    in migration_calls (otrace st) = map mversion selected
       \<and> sorted (map mversion selected)
       \<and> (distinct (map mversion ms) \<longrightarrow> sorted_wrt (<) (map mversion selected))
       \<and> odb st = foldl (\<lambda>d m. fst (migration m oldVersion newVersion (mversion m) d))
                     db selected)"
proof -
  define newVersion where
    "newVersion = (case eventNewVersion of None \<Rightarrow> version config | Some v \<Rightarrow> v)"
  define s0 where "s0 = openIndexedDB_init (config\<lparr>migrations := Some ms\<rparr>) db"
  define tr where "tr = call (oconfig s0) onUpgradeStart
     (Call_onUpgradeStart (odb s0) oldVersion newVersion) (otrace s0)"
  define st where "st = openIndexedDB valid (config\<lparr>migrations := Some ms\<rparr>) db
               [Ev_upgradeneeded oldVersion eventNewVersion]"
  have s0: "migrations (oconfig s0) = Some ms" "odb s0 = db" "othrown s0 = []"
    "otrace s0 = [Engine_open (name config) (version config)]"
    "newVersion = (case eventNewVersion of None \<Rightarrow> version (oconfig s0) | Some v \<Rightarrow> v)"
    by (cases eventNewVersion;
        simp add: s0_def openIndexedDB_init_def newVersion_def default_transactionTimeout_def)+
  obtain db' r tr' where
    r: "run_migrations oldVersion newVersion (sort_key mversion ms) (odb s0) tr = ((db', r), tr')"
    by (cases "run_migrations oldVersion newVersion (sort_key mversion ms) (odb s0) tr") auto
  have st_eq: "st = onupgradeneeded valid oldVersion eventNewVersion s0"
    by (simp add: st_def openIndexedDB_def s0_def)
  note up = upgrade_with_migrations[OF s0(1) s0(5) r[unfolded tr_def], of valid, folded st_eq]
  show ?thesis
  proof (cases r)
    case (Some e)
    have "othrown st = [e]"
      using up Some s0 by simp
    with assms show ?thesis by (simp add: st_def)
  next
    case None
    from run_migrations_ok[OF r[unfolded None]]
    have tr': "tr' = tr @ map (\<lambda>m. Call_migration oldVersion newVersion (mversion m))
                 (filter (in_window oldVersion newVersion) (sort_key mversion ms))"
      and db': "db' = foldl (\<lambda>d m. fst (migration m oldVersion newVersion (mversion m) d)) db
                 (filter (in_window oldVersion newVersion) (sort_key mversion ms))"
      by (simp_all add: s0)
    have "odb st = db'"
      and "migration_calls (otrace st) = map mversion
             (filter (in_window oldVersion newVersion) (sort_key mversion ms))"
      using up None
      by (simp_all add: tr' tr_def s0 migration_calls_call migration_calls_append migration_calls_map)
    then show ?thesis
      unfolding Let_def newVersion_def[symmetric] st_def[symmetric]
      using db' by (simp add: sorted_selected strict_sorted_selected)
  qed
qed

text \<open>
  Claim C3, as stated, fails: two configured migrations of the same version both run,
  and the versions called are not strictly ascending.
\<close>

theorem equal_versions_counterexample:
  "migration_calls (otrace (openIndexedDB ex_valid
      (ex_config\<lparr>migrations := Some [ex_migration 2 ''C'', ex_migration 2 ''D'']\<rparr>) ex_db
      [Ev_upgradeneeded 1 (Some 2)])) = [2, 2]
   \<and> \<not> sorted_wrt (<) [2::int, 2]"
  by (simp add: openIndexedDB_def openIndexedDB_init_def onupgradeneeded_def Let_def
      default_transactionTimeout_def
      ex_config_def ex_migration_def ex_db_def ex_events_def call_eq configured_def
      createObjectStore_def bad_key_path_def bad_autoIncrement_def objectStoreNames_def)

text \<open>
  The theorem at three migrations configured in descending order, for an upgrade from
  version 1 to version 3.
\<close>

theorem migration_runner_order_witness:
  "othrown (openIndexedDB ex_valid
      (ex_config\<lparr>migrations := Some [ex_migration 3 ''D'', ex_migration 2 ''C'', ex_migration 1 ''B'']\<rparr>)
      ex_db [Ev_upgradeneeded 1 (Some 3)]) = []
   \<and> migration_calls (otrace (openIndexedDB ex_valid
      (ex_config\<lparr>migrations := Some [ex_migration 3 ''D'', ex_migration 2 ''C'', ex_migration 1 ''B'']\<rparr>)
      ex_db [Ev_upgradeneeded 1 (Some 3)])) = [2, 3]
   \<and> distinct (map mversion [ex_migration 3 ''D'', ex_migration 2 ''C'', ex_migration 1 ''B''])
   \<and> sorted_wrt (<) [2::int, 3]
   \<and> objectStoreNames (odb (openIndexedDB ex_valid
      (ex_config\<lparr>migrations := Some [ex_migration 3 ''D'', ex_migration 2 ''C'', ex_migration 1 ''B'']\<rparr>)
      ex_db [Ev_upgradeneeded 1 (Some 3)])) = [''A'', ''B'', ''C'', ''D'']"
proof -
  have h: "othrown (openIndexedDB ex_valid
      (ex_config\<lparr>migrations := Some [ex_migration 3 ''D'', ex_migration 2 ''C'', ex_migration 1 ''B'']\<rparr>)
      ex_db [Ev_upgradeneeded 1 (Some 3)]) = []"
    by (simp add: openIndexedDB_def openIndexedDB_init_def onupgradeneeded_def Let_def
      default_transactionTimeout_def
      ex_config_def ex_migration_def ex_db_def ex_events_def call_eq configured_def
      createObjectStore_def bad_key_path_def bad_autoIncrement_def objectStoreNames_def)
  from migration_runner_order[OF h] h show ?thesis
    by (simp add: Let_def in_window_def ex_migration_def ex_config_def ex_db_def
        createObjectStore_def bad_key_path_def bad_autoIncrement_def objectStoreNames_def)
qed

subsection \<open>Which of the two strategies runs\<close>

lemma run_migrations_db:
  "fst (run_migrations old new ms db tr) = fst (run_migrations old new ms db [])"
proof (induction ms arbitrary: db tr)
  case Nil
  then show ?case by simp
next
  case (Cons m ms)
  show ?case
    using Cons.IH[of _ "tr @ [Call_migration old new (mversion m)]"]
      Cons.IH[of _ "[Call_migration old new (mversion m)]"] Cons.IH[of db tr]
    by (simp split: prod.splits option.splits)
qed

lemma upgrade_db_with_migrations:
  assumes "migrations (oconfig st) = Some ms"
  shows "odb (onupgradeneeded valid old nv st)
     = fst (fst (run_migrations old
                   (case nv of None \<Rightarrow> version (oconfig st) | Some v \<Rightarrow> v)
                   (sort_key mversion ms) (odb st) []))"
proof -
  let ?new = "case nv of None \<Rightarrow> version (oconfig st) | Some v \<Rightarrow> v"
  let ?tr = "call (oconfig st) onUpgradeStart (Call_onUpgradeStart (odb st) old ?new) (otrace st)"
  obtain d' r tr' where
    r: "run_migrations old ?new (sort_key mversion ms) (odb st) ?tr = ((d', r), tr')"
    by (cases "run_migrations old ?new (sort_key mversion ms) (odb st) ?tr") auto
  have "fst (run_migrations old ?new (sort_key mversion ms) (odb st) []) = (d', r)"
    using run_migrations_db[of old ?new "sort_key mversion ms" "odb st" ?tr] r by simp
  then show ?thesis
    using assms r by (cases r) (simp_all add: onupgradeneeded_def Let_def)
qed

text \<open>
  Claim C2, as the code has it. The test is \<open>Array.isArray(config.migrations)\<close>: with
  \<open>migrations\<close> absent, the upgrade leaves the structure the Schema Synchronizer
  computes from the configured stores; with \<open>migrations\<close> an array, empty or not, the
  structure after the upgrade does not depend on the configured stores, and with the
  empty array it is the structure the upgrade started from.
\<close>

theorem synchronizer_only_without_migrations:
  "odb (openIndexedDB valid (config\<lparr>migrations := None\<rparr>) db [Ev_upgradeneeded oldVersion nv])
     = fst (schema_sync valid (stores config) db)
   \<and> odb (openIndexedDB valid (config\<lparr>stores := cs, migrations := Some ms\<rparr>) db
            [Ev_upgradeneeded oldVersion nv])
     = odb (openIndexedDB valid (config\<lparr>migrations := Some ms\<rparr>) db
              [Ev_upgradeneeded oldVersion nv])
   \<and> odb (openIndexedDB valid (config\<lparr>migrations := Some []\<rparr>) db
            [Ev_upgradeneeded oldVersion nv])
     = db"
proof -
  have a: "odb (openIndexedDB valid (config\<lparr>migrations := None\<rparr>) db
                  [Ev_upgradeneeded oldVersion nv])
     = fst (schema_sync valid (stores config) db)"
    by (simp add: openIndexedDB_def openIndexedDB_init_def onupgradeneeded_def Let_def
        default_transactionTimeout_def split: prod.splits option.splits)
  have b: "odb (openIndexedDB valid (c\<lparr>migrations := Some ms'\<rparr>) db
                  [Ev_upgradeneeded oldVersion nv])
     = fst (fst (run_migrations oldVersion
                   (case nv of None \<Rightarrow> version c | Some v \<Rightarrow> v)
                   (sort_key mversion ms') db []))" for c ms'
    using upgrade_db_with_migrations[of "openIndexedDB_init (c\<lparr>migrations := Some ms'\<rparr>) db" ms'
        valid oldVersion nv]
    by (cases nv)
       (simp_all add: openIndexedDB_def openIndexedDB_init_def default_transactionTimeout_def)
  show ?thesis
    using a b[where c=config and ms'=ms] b[where c="config\<lparr>stores := cs\<rparr>" and ms'=ms]
      b[where c=config and ms'="[]"]
    by (cases nv) simp_all
qed

text \<open>
  Claim C2, as stated, fails for the empty array: the database holds the stores \<open>A\<close>
  and \<open>B\<close>, the configuration asks for \<open>B\<close> and \<open>C\<close>; with \<open>migrations: []\<close> the
  upgrade leaves \<open>A\<close> and \<open>B\<close> in place and creates nothing, where the Synchronizer
  (migrations absent) leaves \<open>B\<close> and \<open>C\<close>.
\<close>

theorem empty_migrations_counterexample:
  "objectStoreNames (odb (openIndexedDB ex_valid (ex_config\<lparr>migrations := Some []\<rparr>) ex_db
      [Ev_upgradeneeded 1 (Some 2)])) = [''A'', ''B'']
   \<and> objectStoreNames (odb (openIndexedDB ex_valid ex_config ex_db
        [Ev_upgradeneeded 1 (Some 2)]))
       = [''B'', ''C'']"
  by (simp add: openIndexedDB_def openIndexedDB_init_def onupgradeneeded_def Let_def
      default_transactionTimeout_def ex_valid_def
      ex_config_def ex_db_def objectStoreNames_def schema_sync_def sync_store_def
      deleteObjectStore_def createObjectStore_def bad_key_path_def bad_autoIncrement_def
      objectStore_def indexNames_def
      index_absent_def createIndex_def deleteIndex_def update_store_def)

section \<open>Properties of the Schema Synchronizer\<close>

subsection \<open>The primitives of the engine\<close>

lemma names_update_store [simp]:
  "objectStoreNames (update_store n f db) = objectStoreNames db"
  by (simp add: update_store_def objectStoreNames_def comp_def if_distrib cong: if_cong)





lemma wf_update_store:
  assumes "wf_db db" and "\<And>s. distinct (indexNames s) \<Longrightarrow> distinct (indexNames (f s))"
  shows "wf_db (update_store n f db)"
proof -
  have "list_all (\<lambda>p. distinct (indexNames (snd p)))
          (map (\<lambda>p. if fst p = n then (fst p, f (snd p)) else p) (objectStores db))"
    using assms by (auto simp: wf_db_def list_all_iff)
  moreover have "distinct (objectStoreNames (update_store n f db))"
    using assms(1) by (simp add: wf_db_def)
  ultimately show ?thesis
    by (simp add: wf_db_def update_store_def)
qed




subsection \<open>The loop that deletes stores\<close>


subsection \<open>The loop that deletes indexes\<close>


subsection \<open>The loop that creates indexes\<close>






subsection \<open>One configured store, then all of them\<close>







text \<open>
  Outside these hypotheses the upgrade may end half-way. The configuration of the example
  asks for an index on a key path the engine refuses: store \<open>A\<close> is deleted, the
  indexes of store \<open>B\<close> are deleted, \<open>createIndex\<close> raises, store \<open>C\<close> is never
  created and \<open>onUpgradeEnd\<close> is not called; what was changed stays changed.
\<close>

lemma refused_key_path_example:
  "objectStores (odb (openIndexedDB ex_valid
      (ex_config\<lparr>stores :=
         [\<lparr>sname = ''B'', soptions = None,
           sindex = Some [\<lparr>iname = ''by_q'', ikeyPath = ''q r'', ioptions = None\<rparr>]\<rparr>,
          \<lparr>sname = ''C'', soptions = None, sindex = None\<rparr>]\<rparr>)
      ex_db [Ev_upgradeneeded 1 (Some 2)]))
     = [(''B'', \<lparr>parameters = None, indexes = []\<rparr>)]
   \<and> othrown (openIndexedDB ex_valid
      (ex_config\<lparr>stores :=
         [\<lparr>sname = ''B'', soptions = None,
           sindex = Some [\<lparr>iname = ''by_q'', ikeyPath = ''q r'', ioptions = None\<rparr>]\<rparr>,
          \<lparr>sname = ''C'', soptions = None, sindex = None\<rparr>]\<rparr>)
      ex_db [Ev_upgradeneeded 1 (Some 2)])
     = [DOMException ''SyntaxError'']
   \<and> otrace (openIndexedDB ex_valid
      (ex_config\<lparr>stores :=
         [\<lparr>sname = ''B'', soptions = None,
           sindex = Some [\<lparr>iname = ''by_q'', ikeyPath = ''q r'', ioptions = None\<rparr>]\<rparr>,
          \<lparr>sname = ''C'', soptions = None, sindex = None\<rparr>]\<rparr>)
      ex_db [Ev_upgradeneeded 1 (Some 2)])
     = [Engine_open ''d1'' 2, Call_onUpgradeStart ex_db 1 2]"
  by (simp add: openIndexedDB_def openIndexedDB_init_def onupgradeneeded_def Let_def
      default_transactionTimeout_def ex_valid_def call_eq configured_def ex_events_def
      ex_config_def ex_db_def objectStoreNames_def schema_sync_def sync_store_def
      deleteObjectStore_def createObjectStore_def bad_key_path_def bad_autoIncrement_def
      objectStore_def indexNames_def
      index_absent_def createIndex_def deleteIndex_def update_store_def)

end
